theory Spec2Isabelle
  imports Complex_Main "HOL-Library.AList" "HOL-Library.Sublist" "HOL-Library.Multiset"
begin

section \<open>Data model\<close>

text \<open>
  The news system of the AIDB viewer server (the Express application whose latest revision
  carries the category, user, article and comment routes) keeps every collection in
  JSON-Lines files below one store root \<open>dbPath\<close>. A document is the \<open>MemoryNode\<close>
  interface of the server; its \<open>metadata\<close> is an open JSON object.

  JSON values: numbers are restricted to integers (every number the routes read from or
  write to \<open>metadata\<close> is an integer: time stamps and counters). A JSON object is an
  association list with pairwise different keys, read with \<open>map_of\<close>; a key that is
  absent is JavaScript's \<open>undefined\<close>.
\<close>

datatype jvalue =
    JNull
  | JBool bool
  | JNum int
  | JStr string
  | JArr "jvalue list"
  | JObj "(string \<times> jvalue) list"

text \<open>
  \<open>interface MemoryNode\<close>. The field \<open>id\<close> is called \<open>node_id\<close> (\<open>id\<close> is the
  identity function of HOL); the optional \<open>embedding\<close>, which no route of the news
  system reads or writes, is left out.
\<close>

record MemoryNode =
  node_id :: string
  content :: string
  content_type :: string
  parent_id :: "string option"
  children :: "string list"
  depth :: int
  metadata :: "(string \<times> jvalue) list"
  tags :: "string list"
  created_at :: int
  last_accessed_at :: int
  access_count :: int
  importance :: rat
  decay_rate :: rat
  entity_ids :: "string list"
  relation_ids :: "string list"

text \<open>\<open>doc.metadata?.key\<close>: \<open>None\<close> is \<open>undefined\<close>.\<close>

definition meta :: "MemoryNode \<Rightarrow> string \<Rightarrow> jvalue option" where
  "meta d k = map_of (metadata d) k"

text \<open>
  A JSON-Lines file is its sequence of newline-terminated lines. A line either parses to a
  document (\<open>JSON.parse\<close> of what \<open>JSON.stringify\<close> wrote gives the document back; a
  line that parses is a \<open>MemoryNode\<close>, as the cast in \<open>readJsonlFile\<close> takes it) or it
  is blank or malformed text, which \<open>readJsonlFile\<close> skips. File operations do not
  fail, so the \<open>catch\<close> branches of the routes (status 500) are not entered.

  The store is the content of the existing directory \<open>dbPath\<close>: the JSON-Lines files by
  their path relative to \<open>dbPath\<close> (\<open>None\<close>: the file does not exist), and whether
  \<open>hnsw.index\<close> and the directory \<open>graph\<close> exist. \<open>path.join\<close> is string
  concatenation with \<open>/\<close>: collection names are plain directory names.
\<close>

datatype line = Doc MemoryNode | Unparsed string

record store =
  files :: "string \<Rightarrow> line list option"
  hnsw_index :: bool
  graph_dir :: bool

type_synonym 'a response = "(nat \<times> string) + 'a"

text \<open>
  A response is either \<open>Inl (status, error)\<close>, the HTTP status and the \<open>error\<close> text of
  \<open>res.status(status).json({ error })\<close>, or \<open>Inr payload\<close>. Every operation returns
  its response together with the store it leaves behind.
\<close>

definition sq :: string where
  "sq = [CHR 0x27]"

section \<open>Reading and writing collection files\<close>

fun parse_lines :: "line list \<Rightarrow> MemoryNode list" where
  "parse_lines [] = []"
| "parse_lines (Doc d # ls) = d # parse_lines ls"
| "parse_lines (Unparsed t # ls) = parse_lines ls"

definition existsSync :: "store \<Rightarrow> string \<Rightarrow> bool" where
  "existsSync s p = (files s p \<noteq> None)"

definition readJsonlFile :: "store \<Rightarrow> string \<Rightarrow> MemoryNode list" where
  "readJsonlFile s p = (case files s p of None \<Rightarrow> [] | Some ls \<Rightarrow> parse_lines ls)"

definition isValidAidb :: "store \<Rightarrow> bool" where
  "isValidAidb s = (existsSync s ''documents.jsonl'' \<or> hnsw_index s \<or> graph_dir s)"

definition collection_path :: "string \<Rightarrow> string" where
  "collection_path collection = collection @ ''/documents.jsonl''"

text \<open>
  \<open>getDocumentsByCollection\<close>: the dedicated file first, then the documents of the shared
  \<open>documents.jsonl\<close> tagged for the collection whose id is not in \<open>existingIds\<close>, the
  ids of the dedicated documents (the set is built once, before the loop).
\<close>

definition getDocumentsByCollection :: "store \<Rightarrow> string \<Rightarrow> MemoryNode list" where
  "getDocumentsByCollection s collection =
     (let results = (if existsSync s (collection_path collection)
                     then readJsonlFile s (collection_path collection) else [])
      in if existsSync s ''documents.jsonl''
         then (let allDocs = readJsonlFile s ''documents.jsonl'';
                   filteredDocs = filter (\<lambda>doc. meta doc ''_collection'' = Some (JStr collection)) allDocs;
                   existingIds = set (map node_id results)
               in fold (\<lambda>doc acc. if node_id doc \<notin> existingIds then acc @ [doc] else acc)
                    filteredDocs results)
         else results)"

definition readCollectionFile :: "store \<Rightarrow> string \<Rightarrow> MemoryNode list" where
  "readCollectionFile s collection =
     (if existsSync s (collection_path collection)
      then readJsonlFile s (collection_path collection) else [])"

text \<open>
  \<open>writeFileSync\<close> replaces a file, \<open>appendFileSync\<close> adds one line to it (creating
  it when missing). \<open>writeCollectionFile\<close> writes the documents joined by newlines plus a
  final newline, so an empty collection becomes one blank line.
\<close>

definition writeFileSync :: "store \<Rightarrow> string \<Rightarrow> line list \<Rightarrow> store" where
  "writeFileSync s p ls = s\<lparr>files := (files s)(p \<mapsto> ls)\<rparr>"

definition appendFileSync :: "store \<Rightarrow> string \<Rightarrow> MemoryNode \<Rightarrow> store" where
  "appendFileSync s p d =
     s\<lparr>files := (files s)(p \<mapsto> (case files s p of None \<Rightarrow> [] | Some ls \<Rightarrow> ls) @ [Doc d])\<rparr>"

definition writeCollectionFile :: "store \<Rightarrow> string \<Rightarrow> MemoryNode list \<Rightarrow> store" where
  "writeCollectionFile s collection documents =
     writeFileSync s (collection_path collection)
       (if documents = [] then [Unparsed []] else map Doc documents)"

section \<open>JavaScript values\<close>

text \<open>
  Truthiness of a request field (a string, or \<open>None\<close> when it is \<open>undefined\<close> or
  \<open>null\<close>) and of a metadata value; \<open>x || d\<close> on a metadata value.
\<close>

definition present :: "string option \<Rightarrow> bool" where
  "present f = (f \<noteq> None \<and> f \<noteq> Some [])"

fun truthy :: "jvalue option \<Rightarrow> bool" where
  "truthy None = False"
| "truthy (Some JNull) = False"
| "truthy (Some (JBool b)) = b"
| "truthy (Some (JNum n)) = (n \<noteq> 0)"
| "truthy (Some (JStr t)) = (t \<noteq> [])"
| "truthy (Some (JArr vs)) = True"
| "truthy (Some (JObj kvs)) = True"

definition or_else :: "jvalue option \<Rightarrow> jvalue \<Rightarrow> jvalue" where
  "or_else v d = (if truthy v then the v else d)"

text \<open>
  Template-literal conversion \<open>`${v}`\<close> of a metadata value. Integers print in decimal
  (below \<open>10^21\<close>, which every time stamp and counter is).
\<close>

fun nat_digits :: "nat \<Rightarrow> string" where
  "nat_digits n =
     (if n < 10 then [char_of (48 + n)]
      else nat_digits (n div 10) @ [char_of (48 + n mod 10)])"

definition int_string :: "int \<Rightarrow> string" where
  "int_string i = (if i < 0 then ''-'' @ nat_digits (nat (- i)) else nat_digits (nat i))"

fun js_string :: "jvalue \<Rightarrow> string" and js_join :: "jvalue list \<Rightarrow> string" where
  "js_string JNull = ''null''"
| "js_string (JBool b) = (if b then ''true'' else ''false'')"
| "js_string (JNum n) = int_string n"
| "js_string (JStr t) = t"
| "js_string (JArr vs) = js_join vs"
| "js_string (JObj kvs) = ''[object Object]''"
| "js_join [] = []"
| "js_join (v # vs) =
     (if v = JNull then [] else js_string v) @ (if vs = [] then [] else '','' @ js_join vs)"


text \<open>\<open>toLowerCase\<close> on the ASCII letters, \<open>String.prototype.includes\<close>.\<close>

definition lower_char :: "char \<Rightarrow> char" where
  "lower_char c = (let n = (of_char c :: nat) in if 65 \<le> n \<and> n \<le> 90 then char_of (n + 32) else c)"

definition toLowerCase :: "string \<Rightarrow> string" where
  "toLowerCase t = map lower_char t"

definition str_includes :: "string \<Rightarrow> string \<Rightarrow> bool" where
  "str_includes t part = sublist part t"

text \<open>
  \<open>Array.prototype.slice(start, end)\<close> and the stable \<open>Array.prototype.sort\<close> with a
  comparator that subtracts integer keys (\<open>sort_key\<close> is insertion sort, which is stable).
\<close>

definition slice :: "'a list \<Rightarrow> int \<Rightarrow> int \<Rightarrow> 'a list" where
  "slice xs start stop =
     (let len = int (length xs);
          k = (if start < 0 then max (len + start) 0 else min start len);
          e = (if stop < 0 then max (len + stop) 0 else min stop len)
      in take (nat (e - k)) (drop (nat k) xs))"


text \<open>\<open>createLookupMap\<close>: \<open>new Map\<close> of the pairs, a later pair replacing an earlier one.\<close>

definition createLookupMap :: "MemoryNode list \<Rightarrow> string \<Rightarrow> MemoryNode option" where
  "createLookupMap items = fold (\<lambda>item m. m(node_id item \<mapsto> item)) items Map.empty"

text \<open>
  \<open>id ? map.get(id) : null\<close> for a metadata value \<open>id\<close>: the keys of the map are
  strings, so only a non-empty string finds anything.
\<close>

definition lookup_ref :: "(string \<Rightarrow> MemoryNode option) \<Rightarrow> jvalue option \<Rightarrow> MemoryNode option" where
  "lookup_ref m v = (case v of Some (JStr t) \<Rightarrow> (if t = [] then None else m t) | _ \<Rightarrow> None)"

section \<open>Typed views\<close>

record Category =
  cat_id :: string
  cat_name :: jvalue
  cat_description :: jvalue
  cat_icon :: jvalue
  cat_slug :: jvalue

record User =
  user_id :: string
  user_name :: jvalue
  user_email :: jvalue
  user_avatar :: jvalue
  user_role :: jvalue

record Article =
  art_id :: string
  art_content :: string
  art_title :: jvalue
  art_categoryId :: "jvalue option"
  art_authorId :: "jvalue option"
  art_status :: jvalue
  art_publishedAt :: jvalue
  art_viewCount :: jvalue
  art_likeCount :: jvalue
  art_tags :: "string list"
  art_created_at :: int
  art_category :: "Category option"
  art_author :: "User option"

record Comment =
  com_id :: string
  com_content :: string
  com_newsId :: jvalue
  com_authorId :: "jvalue option"
  com_parentId :: jvalue
  com_likeCount :: jvalue
  com_created_at :: int
  com_depth :: int
  com_children :: "string list"
  com_author :: "User option"

definition category_view :: "MemoryNode \<Rightarrow> Category" where
  "category_view doc =
     \<lparr>cat_id = node_id doc,
      cat_name = or_else (meta doc ''name'') (JStr []),
      cat_description = or_else (meta doc ''description'') (JStr []),
      cat_icon = or_else (meta doc ''icon'') (JStr []),
      cat_slug = or_else (meta doc ''slug'') (JStr [])\<rparr>"

definition user_view :: "MemoryNode \<Rightarrow> User" where
  "user_view doc =
     \<lparr>user_id = node_id doc,
      user_name = or_else (meta doc ''name'') (JStr []),
      user_email = or_else (meta doc ''email'') (JStr []),
      user_avatar = or_else (meta doc ''avatar'') (JStr []),
      user_role = or_else (meta doc ''role'') (JStr [])\<rparr>"

text \<open>The object built by \<open>GET /api/news/articles\<close> and \<open>GET /api/news/articles/:id\<close>.\<close>

definition article_view ::
  "(string \<Rightarrow> MemoryNode option) \<Rightarrow> (string \<Rightarrow> MemoryNode option) \<Rightarrow> MemoryNode \<Rightarrow> Article" where
  "article_view categoryMap userMap doc =
     (let catId = meta doc ''categoryId'';
          authId = meta doc ''authorId'';
          categoryDoc = lookup_ref categoryMap catId;
          authorDoc = lookup_ref userMap authId
      in \<lparr>art_id = node_id doc,
          art_content = content doc,
          art_title = or_else (meta doc ''title'') (JStr []),
          art_categoryId = catId,
          art_authorId = authId,
          art_status = or_else (meta doc ''status'') (JStr ''draft''),
          art_publishedAt = or_else (meta doc ''publishedAt'') (JNum (created_at doc)),
          art_viewCount = or_else (meta doc ''viewCount'') (JNum 0),
          art_likeCount = or_else (meta doc ''likeCount'') (JNum 0),
          art_tags = tags doc,
          art_created_at = created_at doc,
          art_category = map_option category_view categoryDoc,
          art_author = map_option user_view authorDoc\<rparr>)"

text \<open>The object built by \<open>GET /api/news/comments\<close>.\<close>

definition comment_view :: "(string \<Rightarrow> MemoryNode option) \<Rightarrow> MemoryNode \<Rightarrow> Comment" where
  "comment_view userMap doc =
     (let authId = meta doc ''authorId'';
          authorDoc = lookup_ref userMap authId
      in \<lparr>com_id = node_id doc,
          com_content = content doc,
          com_newsId = or_else (meta doc ''newsId'') (JStr []),
          com_authorId = authId,
          com_parentId = or_else (meta doc ''parentId'') JNull,
          com_likeCount = or_else (meta doc ''likeCount'') (JNum 0),
          com_created_at = created_at doc,
          com_depth = depth doc,
          com_children = children doc,
          com_author = map_option user_view authorDoc\<rparr>)"

section \<open>Read routes\<close>




text \<open>
  \<open>GET /api/news/articles\<close>. \<open>limit\<close> and \<open>offset\<close> are the results of
  \<open>parseInt\<close> (\<open>None\<close>: \<open>NaN\<close>). The search filter calls \<open>toLowerCase\<close> on the
  title, which throws on a truthy title that is not a string (\<open>None\<close> in
  \<open>search_match\<close>; the handler then sends nothing, which is the response
  \<open>Inl (500, ''TypeError'')\<close> here); the sort key is \<open>publishedAt || 0\<close>, a number
  whenever it is present.
\<close>

definition search_match :: "string \<Rightarrow> MemoryNode \<Rightarrow> bool option" where
  "search_match lowerSearch a =
     (if str_includes (toLowerCase (content a)) lowerSearch then Some True
      else case or_else (meta a ''title'') (JStr []) of
             JStr t \<Rightarrow> Some (str_includes (toLowerCase t) lowerSearch)
           | _ \<Rightarrow> None)"

definition publishedAt_key :: "MemoryNode \<Rightarrow> int" where
  "publishedAt_key a = (case meta a ''publishedAt'' of Some (JNum n) \<Rightarrow> n | _ \<Rightarrow> 0)"

definition listArticles ::
  "store \<Rightarrow> int option \<Rightarrow> int option \<Rightarrow> string option \<Rightarrow> string option \<Rightarrow> string option
     \<Rightarrow> string option \<Rightarrow> (Article list \<times> nat) response" where
  "listArticles s limitParam offsetParam categoryId authorId status search =
     (let limit = (case limitParam of None \<Rightarrow> 100 | Some n \<Rightarrow> if n = 0 then 100 else n);
          offset = (case offsetParam of None \<Rightarrow> 0 | Some n \<Rightarrow> n)
      in if \<not> isValidAidb s then Inl (400, ''Invalid database path'')
         else let newsDocs = getDocumentsByCollection s ''news'';
                  categoryMap = createLookupMap (getDocumentsByCollection s ''categories'');
                  userMap = createLookupMap (getDocumentsByCollection s ''users'');
                  articles1 = (if present categoryId
                               then filter (\<lambda>a. meta a ''categoryId'' = map_option JStr categoryId) newsDocs
                               else newsDocs);
                  articles2 = (if present authorId
                               then filter (\<lambda>a. meta a ''authorId'' = map_option JStr authorId) articles1
                               else articles1);
                  articles3 = (if present status
                               then filter (\<lambda>a. meta a ''status'' = map_option JStr status) articles2
                               else articles2)
              in if present search
                    \<and> list_ex (\<lambda>a. search_match (toLowerCase (the search)) a = None) articles3
                 then Inl (500, ''TypeError'')
                 else let articles4 = (if present search
                                       then filter (\<lambda>a. search_match (toLowerCase (the search)) a = Some True)
                                              articles3
                                       else articles3);
                          sorted_articles = sort_key (\<lambda>a. - publishedAt_key a) articles4;
                          total = length sorted_articles;
                          page = slice sorted_articles offset (offset + limit)
                      in Inr (map (article_view categoryMap userMap) page, total))"

text \<open>\<open>GET /api/news/articles/:id\<close>.\<close>

definition getArticle :: "store \<Rightarrow> string \<Rightarrow> Article response" where
  "getArticle s ident =
     (if \<not> isValidAidb s then Inl (400, ''Invalid database path'')
      else let newsDocs = getDocumentsByCollection s ''news'';
               categoryDocs = getDocumentsByCollection s ''categories'';
               userDocs = getDocumentsByCollection s ''users''
           in case find (\<lambda>d. node_id d = ident) newsDocs of
                None \<Rightarrow> Inl (404, ''Article not found'')
              | Some doc \<Rightarrow>
                  Inr (article_view (createLookupMap categoryDocs) (createLookupMap userDocs) doc))"

text \<open>
  \<open>GET /api/news/comments\<close>: the comments of one article, sorted by \<open>created_at\<close>,
  each populated with its author. \<open>newsId\<close> is the query parameter (\<open>None\<close>:
  \<open>undefined\<close>, which equals only an absent \<open>metadata.newsId\<close>).
\<close>

definition listComments :: "store \<Rightarrow> string option \<Rightarrow> Comment list response" where
  "listComments s newsId =
     (if \<not> isValidAidb s then Inl (400, ''Invalid database path'')
      else let commentDocs = getDocumentsByCollection s ''comments'';
               userMap = createLookupMap (getDocumentsByCollection s ''users'');
               comments = filter (\<lambda>c. meta c ''newsId'' = map_option JStr newsId) commentDocs;
               sorted_comments = sort_key created_at comments
           in Inr (map (comment_view userMap) sorted_comments))"

section \<open>Write routes\<close>

text \<open>
  Request bodies: a field is a string or absent (\<open>None\<close>). \<open>Date.now()\<close> and the
  first group of \<open>randomUUID()\<close> are parameters of the operations that use them. A
  write route returns the document it wrote (the JSON body of the response repeats fields
  of that document) or nothing, and the store after its writes.
\<close>

record CategoryBody =
  cb_name :: "string option"
  cb_description :: "string option"
  cb_icon :: "string option"
  cb_slug :: "string option"
  cb_code :: "string option"

record ArticleBody =
  ab_title :: "string option"
  ab_content :: "string option"
  ab_categoryId :: "string option"
  ab_authorId :: "string option"
  ab_status :: "string option"
  ab_tags :: "string list option"

record CommentBody =
  mb_newsId :: "string option"
  mb_authorId :: "string option"
  mb_content :: "string option"
  mb_parentId :: "string option"


text \<open>The test \<open>/^[a-z0-9_-]+$/\<close>.\<close>

definition code_char :: "char \<Rightarrow> bool" where
  "code_char c =
     (let n = (of_char c :: nat)
      in (97 \<le> n \<and> n \<le> 122) \<or> (48 \<le> n \<and> n \<le> 57) \<or> c = CHR ''_'' \<or> c = CHR ''-'')"

definition code_format_ok :: "string \<Rightarrow> bool" where
  "code_format_ok code = (code \<noteq> [] \<and> list_all code_char code)"


text \<open>\<open>POST /api/news/categories\<close>.\<close>

definition createCategory :: "store \<Rightarrow> CategoryBody \<Rightarrow> int \<Rightarrow> MemoryNode response \<times> store" where
  "createCategory s b now =
     (if \<not> isValidAidb s then (Inl (400, ''Invalid database path''), s)
      else if \<not> present (cb_name b) \<or> \<not> present (cb_description b) \<or> \<not> present (cb_icon b)
      then (Inl (400, ''Name, description and icon are required''), s)
      else if \<not> present (cb_code b)
      then (Inl (400, ''Category code is required (must be in English)''), s)
      else if \<not> code_format_ok (the (cb_code b))
      then (Inl (400, ''Category code must only contain lowercase letters, numbers, underscores and hyphens''), s)
      else let categorySlug = (if present (cb_slug b) then the (cb_slug b) else the (cb_code b));
               categoryId = ''cat_'' @ the (cb_code b);
               existingCategories = readCollectionFile s ''categories''
           in if list_ex (\<lambda>c. node_id c = categoryId) existingCategories
              then (Inl (400, ''Category with ID '' @ sq @ categoryId @ sq @ '' already exists''), s)
              else let newCategory =
                         \<lparr>node_id = categoryId,
                          content = the (cb_name b) @ '' - '' @ the (cb_description b),
                          content_type = ''category'',
                          parent_id = None,
                          children = [],
                          depth = 0,
                          metadata = [(''name'', JStr (the (cb_name b))),
                                      (''description'', JStr (the (cb_description b))),
                                      (''icon'', JStr (the (cb_icon b))),
                                      (''slug'', JStr categorySlug),
                                      (''_collection'', JStr ''categories'')],
                          tags = [''category''],
                          created_at = now,
                          last_accessed_at = now,
                          access_count = 0,
                          importance = 9 / 10,
                          decay_rate = 1 / 100,
                          entity_ids = [],
                          relation_ids = []\<rparr>
                   in (Inr newCategory, appendFileSync s (collection_path ''categories'') newCategory))"


text \<open>\<open>DELETE /api/news/categories/:id\<close>.\<close>

definition deleteCategory :: "store \<Rightarrow> string \<Rightarrow> unit response \<times> store" where
  "deleteCategory s ident =
     (if \<not> isValidAidb s then (Inl (400, ''Invalid database path''), s)
      else let newsDocs = getDocumentsByCollection s ''news'';
               hasReferences = list_ex (\<lambda>n. meta n ''categoryId'' = Some (JStr ident)) newsDocs
           in if hasReferences
              then (Inl (400, ''Cannot delete category '' @ sq @ ident @ sq
                              @ '': it is referenced by news articles (restrict constraint)''), s)
              else let categories = readCollectionFile s ''categories'';
                       filteredCategories = filter (\<lambda>c. node_id c \<noteq> ident) categories
                   in if length filteredCategories = length categories
                      then (Inl (404, ''Category not found''), s)
                      else (Inr (), writeCollectionFile s ''categories'' filteredCategories))"

text \<open>\<open>POST /api/news/articles\<close>.\<close>

definition createArticle ::
  "store \<Rightarrow> ArticleBody \<Rightarrow> int \<Rightarrow> string \<Rightarrow> MemoryNode response \<times> store" where
  "createArticle s b now uuid =
     (let status = (case ab_status b of None \<Rightarrow> ''draft'' | Some t \<Rightarrow> t);
          tagsParam = (case ab_tags b of None \<Rightarrow> [] | Some ts \<Rightarrow> ts)
      in if \<not> isValidAidb s then (Inl (400, ''Invalid database path''), s)
         else if \<not> present (ab_title b) \<or> \<not> present (ab_content b)
         then (Inl (400, ''Title and content are required''), s)
         else if \<not> present (ab_categoryId b) \<or> \<not> present (ab_authorId b)
         then (Inl (400, ''categoryId and authorId are required (foreign keys)''), s)
         else let categories = getDocumentsByCollection s ''categories'';
                  users = getDocumentsByCollection s ''users'';
                  categoryId = the (ab_categoryId b);
                  authorId = the (ab_authorId b);
                  categoryExists = list_ex (\<lambda>c. node_id c = categoryId) categories;
                  authorExists = list_ex (\<lambda>u. node_id u = authorId) users
              in if \<not> categoryExists
                 then (Inl (400, ''Foreign key constraint violation: categoryId '' @ sq @ categoryId @ sq
                                 @ '' not found in categories''), s)
                 else if \<not> authorExists
                 then (Inl (400, ''Foreign key constraint violation: authorId '' @ sq @ authorId @ sq
                                 @ '' not found in users''), s)
                 else let newArticle =
                            \<lparr>node_id = ''news_'' @ uuid,
                             content = the (ab_title b) @ [CHR 0x0A, CHR 0x0A] @ the (ab_content b),
                             content_type = ''news'',
                             parent_id = None,
                             children = [],
                             depth = 0,
                             metadata =
                               [(''title'', JStr (the (ab_title b))),
                                (''categoryId'', JStr categoryId),
                                (''authorId'', JStr authorId),
                                (''status'', JStr status)]
                               @ (if status = ''published'' then [(''publishedAt'', JNum now)] else [])
                               @ [(''viewCount'', JNum 0),
                                  (''likeCount'', JNum 0),
                                  (''_collection'', JStr ''news''),
                                  (''_foreignKeys'', JObj
                                     [(''categoryId'', JObj [(''targetCollection'', JStr ''categories''),
                                                             (''onDelete'', JStr ''restrict'')]),
                                      (''authorId'', JObj [(''targetCollection'', JStr ''users''),
                                                           (''onDelete'', JStr ''set_null'')])])],
                             tags = ''news'' # tagsParam,
                             created_at = now,
                             last_accessed_at = now,
                             access_count = 0,
                             importance = (if status = ''published'' then 8 / 10 else 5 / 10),
                             decay_rate = 1 / 100,
                             entity_ids = [],
                             relation_ids = []\<rparr>
                      in (Inr newArticle, appendFileSync s (collection_path ''news'') newArticle))"

text \<open>
  \<open>DELETE /api/news/articles/:id\<close>: the article is removed from the file of the news
  directory; then the comments of the merged collection that do not belong to the article
  are written to the file of the comments directory, when some comment was dropped and that
  file exists.
\<close>

definition deleteArticle :: "store \<Rightarrow> string \<Rightarrow> unit response \<times> store" where
  "deleteArticle s ident =
     (if \<not> isValidAidb s then (Inl (400, ''Invalid database path''), s)
      else if \<not> existsSync s (collection_path ''news'')
      then (Inl (404, ''News collection not found''), s)
      else let newsDocs = readJsonlFile s (collection_path ''news'');
               filteredDocs = filter (\<lambda>n. node_id n \<noteq> ident) newsDocs
           in if length filteredDocs = length newsDocs
              then (Inl (404, ''Article not found''), s)
              else let s1 = writeFileSync s (collection_path ''news'') (map Doc filteredDocs);
                       commentsDocs = getDocumentsByCollection s1 ''comments'';
                       filteredComments =
                         filter (\<lambda>c. meta c ''newsId'' \<noteq> Some (JStr ident)) commentsDocs
                   in (Inr (),
                       if length filteredComments < length commentsDocs
                          \<and> existsSync s1 (collection_path ''comments'')
                       then writeFileSync s1 (collection_path ''comments'') (map Doc filteredComments)
                       else s1))"

text \<open>\<open>POST /api/news/comments\<close>: the new comment is appended to \<open>documents.jsonl\<close> of the store root.\<close>

definition createComment ::
  "store \<Rightarrow> CommentBody \<Rightarrow> int \<Rightarrow> string \<Rightarrow> MemoryNode response \<times> store" where
  "createComment s b now uuid =
     (if \<not> isValidAidb s then (Inl (400, ''Invalid database path''), s)
      else if \<not> present (mb_content b) then (Inl (400, ''Content is required''), s)
      else if \<not> present (mb_newsId b) \<or> \<not> present (mb_authorId b)
      then (Inl (400, ''newsId and authorId are required (foreign keys)''), s)
      else let newsDocs = getDocumentsByCollection s ''news'';
               users = getDocumentsByCollection s ''users'';
               comments = getDocumentsByCollection s ''comments'';
               newsId = the (mb_newsId b);
               authorId = the (mb_authorId b);
               parentId = mb_parentId b;
               newsExists = list_ex (\<lambda>n. node_id n = newsId) newsDocs;
               authorExists = list_ex (\<lambda>u. node_id u = authorId) users;
               parentExists = (if present parentId
                               then list_ex (\<lambda>c. node_id c = the parentId) comments else True)
           in if \<not> newsExists
              then (Inl (400, ''Foreign key constraint violation: newsId '' @ sq @ newsId @ sq
                              @ '' not found in news''), s)
              else if \<not> authorExists
              then (Inl (400, ''Foreign key constraint violation: authorId '' @ sq @ authorId @ sq
                              @ '' not found in users''), s)
              else if \<not> parentExists
              then (Inl (400, ''Foreign key constraint violation: parentId '' @ sq @ the parentId @ sq
                              @ '' not found in comments''), s)
              else let newComment =
                         \<lparr>node_id = ''comment_'' @ uuid,
                          content = the (mb_content b),
                          content_type = ''comment'',
                          parent_id = (if present parentId then parentId else None),
                          children = [],
                          depth = (if present parentId then 1 else 0),
                          metadata =
                            [(''newsId'', JStr newsId),
                             (''authorId'', JStr authorId),
                             (''parentId'', (case parentId of None \<Rightarrow> JNull | Some p \<Rightarrow> JStr p)),
                             (''likeCount'', JNum 0),
                             (''_collection'', JStr ''comments''),
                             (''_foreignKeys'', JObj
                                [(''newsId'', JObj [(''targetCollection'', JStr ''news''),
                                                    (''onDelete'', JStr ''cascade'')]),
                                 (''authorId'', JObj [(''targetCollection'', JStr ''users''),
                                                      (''onDelete'', JStr ''set_null'')]),
                                 (''parentId'', JObj [(''targetCollection'', JStr ''comments''),
                                                      (''onDelete'', JStr ''cascade'')])])],
                          tags = (if present parentId then [''comment'', ''reply''] else [''comment'']),
                          created_at = now,
                          last_accessed_at = now,
                          access_count = 0,
                          importance = 5 / 10,
                          decay_rate = 1 / 100,
                          entity_ids = [],
                          relation_ids = []\<rparr>
                   in (Inr newComment, appendFileSync s ''documents.jsonl'' newComment))"



definition deleteUser :: "store \<Rightarrow> string \<Rightarrow> unit response \<times> store" where
  "deleteUser s ident =
     (if \<not> isValidAidb s then (Inl (400, ''Invalid database path''), s)
      else let users = readCollectionFile s ''users'';
               filteredUsers = filter (\<lambda>u. node_id u \<noteq> ident) users
           in if length filteredUsers = length users
              then (Inl (404, ''User not found''), s)
              else (Inr (), writeCollectionFile s ''users'' filteredUsers))"

section \<open>Example stores\<close>

definition example_node :: "string \<Rightarrow> string \<Rightarrow> (string \<times> jvalue) list \<Rightarrow> int \<Rightarrow> MemoryNode" where
  "example_node ident ctype md t =
     \<lparr>node_id = ident, content = ''text'', content_type = ctype, parent_id = None,
      children = [], depth = 0, metadata = md, tags = [ctype], created_at = t,
      last_accessed_at = t, access_count = 0, importance = 1 / 2, decay_rate = 1 / 100,
      entity_ids = [], relation_ids = []\<rparr>"

definition example_store :: "(string \<times> line list) list \<Rightarrow> store" where
  "example_store fs = \<lparr>files = map_of fs, hnsw_index = False, graph_dir = False\<rparr>"

definition cat_tech :: MemoryNode where
  "cat_tech = example_node ''cat_tech'' ''category''
     [(''name'', JStr ''Tech''), (''description'', JStr ''Technology''), (''icon'', JStr ''T''),
      (''slug'', JStr ''tech''), (''_collection'', JStr ''categories'')] 10"

definition user_ann :: MemoryNode where
  "user_ann = example_node ''user_ann'' ''user''
     [(''name'', JStr ''Ann''), (''email'', JStr ''ann@example.org''), (''avatar'', JStr ''a.png''),
      (''role'', JStr ''editor''), (''_collection'', JStr ''users'')] 20"

definition news_a :: MemoryNode where
  "news_a = example_node ''news_a'' ''news''
     [(''title'', JStr ''Hello''), (''categoryId'', JStr ''cat_tech''),
      (''authorId'', JStr ''user_ann''), (''status'', JStr ''draft''),
      (''_collection'', JStr ''news'')] 100"

definition store_restrict :: store where
  "store_restrict = example_store
     [(''documents.jsonl'', []),
      (''categories/documents.jsonl'', [Doc cat_tech]),
      (''users/documents.jsonl'', [Doc user_ann]),
      (''news/documents.jsonl'', [Doc news_a])]"

definition body_unknown_category :: ArticleBody where
  "body_unknown_category =
     \<lparr>ab_title = Some ''Title'', ab_content = Some ''Body'', ab_categoryId = Some ''cat_none'',
      ab_authorId = Some ''user_ann'', ab_status = None, ab_tags = None\<rparr>"

definition cat_tech_legacy :: MemoryNode where
  "cat_tech_legacy = example_node ''cat_tech'' ''category''
     [(''name'', JStr ''Old tech''), (''_collection'', JStr ''categories'')] 1"

definition cat_old :: MemoryNode where
  "cat_old = example_node ''cat_old'' ''category''
     [(''name'', JStr ''Old''), (''_collection'', JStr ''categories'')] 2"

definition cat_old_again :: MemoryNode where
  "cat_old_again = example_node ''cat_old'' ''category''
     [(''name'', JStr ''Old again''), (''_collection'', JStr ''categories'')] 3"

definition store_merge :: store where
  "store_merge = example_store
     [(''documents.jsonl'', [Doc cat_tech_legacy, Unparsed ''{oops'', Doc user_ann, Doc cat_old]),
      (''categories/documents.jsonl'', [Doc cat_tech])]"

definition store_legacy_duplicates :: store where
  "store_legacy_duplicates = example_store
     [(''documents.jsonl'', [Doc cat_old, Doc cat_old_again]),
      (''categories/documents.jsonl'', [Doc cat_tech])]"











definition comment_c1 :: MemoryNode where
  "comment_c1 = example_node ''comment_c1'' ''comment''
     [(''newsId'', JStr ''news_a''), (''authorId'', JStr ''user_ann''), (''parentId'', JNull),
      (''likeCount'', JNum 0), (''_collection'', JStr ''comments'')] 100"

definition comment_c2 :: MemoryNode where
  "comment_c2 = example_node ''comment_c2'' ''comment''
     [(''newsId'', JStr ''news_a''), (''authorId'', JStr ''user_ann''),
      (''parentId'', JStr ''comment_c1''), (''likeCount'', JNum 0),
      (''_collection'', JStr ''comments'')] 200"

definition comment_other :: MemoryNode where
  "comment_other = example_node ''comment_other'' ''comment''
     [(''newsId'', JStr ''news_old''), (''authorId'', JStr ''user_ann''), (''parentId'', JNull),
      (''likeCount'', JNum 0), (''_collection'', JStr ''comments'')] 150"

definition store_cascade :: store where
  "store_cascade = example_store
     [(''documents.jsonl'', [Doc comment_other]),
      (''categories/documents.jsonl'', [Doc cat_tech]),
      (''users/documents.jsonl'', [Doc user_ann]),
      (''news/documents.jsonl'', [Doc news_a]),
      (''comments/documents.jsonl'', [Doc comment_c1, Doc comment_c2])]"

definition store_legacy_article :: store where
  "store_legacy_article = example_store
     [(''documents.jsonl'', [Doc cat_tech, Doc user_ann, Doc news_a, Doc comment_c1, Doc comment_c2])]"

definition body_comment :: CommentBody where
  "body_comment = \<lparr>mb_newsId = Some ''news_a'', mb_authorId = Some ''user_ann'',
                    mb_content = Some ''Nice'', mb_parentId = None\<rparr>"

definition news_d1 :: MemoryNode where
  "news_d1 = example_node ''news_d1'' ''news''
     [(''title'', JStr ''First draft''), (''categoryId'', JStr ''cat_tech''),
      (''authorId'', JStr ''user_ann''), (''status'', JStr ''draft''),
      (''_collection'', JStr ''news'')] 100"

definition news_d2 :: MemoryNode where
  "news_d2 = example_node ''news_d2'' ''news''
     [(''title'', JStr ''Second draft''), (''categoryId'', JStr ''cat_tech''),
      (''authorId'', JStr ''user_ann''), (''status'', JStr ''draft''),
      (''_collection'', JStr ''news'')] 300"

definition news_p :: MemoryNode where
  "news_p = example_node ''news_p'' ''news''
     [(''title'', JStr ''Published''), (''categoryId'', JStr ''cat_tech''),
      (''authorId'', JStr ''user_ann''), (''status'', JStr ''published''),
      (''publishedAt'', JNum 200), (''_collection'', JStr ''news'')] 200"

definition store_drafts :: store where
  "store_drafts = example_store
     [(''documents.jsonl'', []),
      (''categories/documents.jsonl'', [Doc cat_tech]),
      (''users/documents.jsonl'', [Doc user_ann]),
      (''news/documents.jsonl'', [Doc news_d1, Doc news_d2, Doc news_p])]"

definition thread_c1 :: MemoryNode where
  "thread_c1 = example_node ''c1'' ''comment''
     [(''newsId'', JStr ''news_a''), (''authorId'', JStr ''user_ann''), (''parentId'', JNull),
      (''_collection'', JStr ''comments'')] 100"

definition thread_c2 :: MemoryNode where
  "thread_c2 = example_node ''c2'' ''comment''
     [(''newsId'', JStr ''news_a''), (''authorId'', JStr ''user_ann''), (''parentId'', JNull),
      (''_collection'', JStr ''comments'')] 50"

definition thread_c3 :: MemoryNode where
  "thread_c3 = example_node ''c3'' ''comment''
     [(''newsId'', JStr ''news_a''), (''authorId'', JStr ''user_ann''), (''parentId'', JStr ''c1''),
      (''_collection'', JStr ''comments'')] 200"

definition tie_b :: MemoryNode where
  "tie_b = example_node ''comment_b'' ''comment''
     [(''newsId'', JStr ''news_a''), (''authorId'', JStr ''user_ann''), (''parentId'', JNull),
      (''_collection'', JStr ''comments'')] 100"

definition tie_a :: MemoryNode where
  "tie_a = example_node ''comment_a'' ''comment''
     [(''newsId'', JStr ''news_a''), (''authorId'', JStr ''user_ann''), (''parentId'', JNull),
      (''_collection'', JStr ''comments'')] 100"

definition store_thread :: store where
  "store_thread = example_store
     [(''documents.jsonl'', [Doc thread_c1, Doc thread_c2, Doc thread_c3]),
      (''users/documents.jsonl'', [Doc user_ann]),
      (''news/documents.jsonl'', [Doc news_a])]"

definition store_ties :: store where
  "store_ties = example_store
     [(''documents.jsonl'', [Doc tie_b, Doc tie_a]),
      (''users/documents.jsonl'', [Doc user_ann]),
      (''news/documents.jsonl'', [Doc news_a])]"



definition store_no_root_file :: store where
  "store_no_root_file = example_store
     [(''categories/documents.jsonl'', [Doc cat_tech]),
      (''users/documents.jsonl'', [Doc user_ann]),
      (''news/documents.jsonl'', [Doc news_a])]"

definition body_reply :: CommentBody where
  "body_reply = \<lparr>mb_newsId = Some ''news_a'', mb_authorId = Some ''user_ann'',
                  mb_content = Some ''Indeed'', mb_parentId = Some ''comment_c0ffee00''\<rparr>"

definition api_comment_1 :: MemoryNode where
  "api_comment_1 =
     \<lparr>node_id = ''comment_c0ffee00'', content = ''Nice'', content_type = ''comment'',
      parent_id = None, children = [], depth = 0,
      metadata =
        [(''newsId'', JStr ''news_a''), (''authorId'', JStr ''user_ann''), (''parentId'', JNull),
         (''likeCount'', JNum 0), (''_collection'', JStr ''comments''),
         (''_foreignKeys'', JObj
            [(''newsId'', JObj [(''targetCollection'', JStr ''news''), (''onDelete'', JStr ''cascade'')]),
             (''authorId'', JObj [(''targetCollection'', JStr ''users''), (''onDelete'', JStr ''set_null'')]),
             (''parentId'', JObj [(''targetCollection'', JStr ''comments''),
                                  (''onDelete'', JStr ''cascade'')])])],
      tags = [''comment''], created_at = 2000, last_accessed_at = 2000, access_count = 0,
      importance = 5 / 10, decay_rate = 1 / 100, entity_ids = [], relation_ids = []\<rparr>"

definition api_comment_2 :: MemoryNode where
  "api_comment_2 =
     \<lparr>node_id = ''comment_c0ffee01'', content = ''Indeed'', content_type = ''comment'',
      parent_id = Some ''comment_c0ffee00'', children = [], depth = 1,
      metadata =
        [(''newsId'', JStr ''news_a''), (''authorId'', JStr ''user_ann''),
         (''parentId'', JStr ''comment_c0ffee00''),
         (''likeCount'', JNum 0), (''_collection'', JStr ''comments''),
         (''_foreignKeys'', JObj
            [(''newsId'', JObj [(''targetCollection'', JStr ''news''), (''onDelete'', JStr ''cascade'')]),
             (''authorId'', JObj [(''targetCollection'', JStr ''users''), (''onDelete'', JStr ''set_null'')]),
             (''parentId'', JObj [(''targetCollection'', JStr ''comments''),
                                  (''onDelete'', JStr ''cascade'')])])],
      tags = [''comment'', ''reply''], created_at = 2001, last_accessed_at = 2001, access_count = 0,
      importance = 5 / 10, decay_rate = 1 / 100, entity_ids = [], relation_ids = []\<rparr>"

definition store_one_comment :: store where
  "store_one_comment = appendFileSync store_restrict ''documents.jsonl'' api_comment_1"

definition store_two_comments :: store where
  "store_two_comments = appendFileSync store_one_comment ''documents.jsonl'' api_comment_2"

section \<open>Restrict on category deletion\<close>

text \<open>
  Claim C1, amended. For every valid store state (a store root that holds \<open>documents.jsonl\<close>,
  \<open>hnsw.index\<close> or the directory \<open>graph\<close>, which is what \<open>isValidAidb\<close> tests) and
  every category id \<open>C\<close>: whenever some article of the merged news collection carries
  \<open>metadata.categoryId = C\<close>, \<open>deleteCategory C\<close> answers with status 400 and the error
  text naming the restrict constraint, and the store it leaves is the store it found: no file
  is written, so the category, the article and every other document are as before.
\<close>

theorem deleteCategory_restrict_blocks:
  assumes "isValidAidb s"
    and "n \<in> set (getDocumentsByCollection s ''news'')"
    and "meta n ''categoryId'' = Some (JStr C)"
  shows "deleteCategory s C =
           (Inl (400, ''Cannot delete category '' @ sq @ C @ sq
                      @ '': it is referenced by news articles (restrict constraint)''), s)"
proof -
  have "list_ex (\<lambda>n. meta n ''categoryId'' = Some (JStr C)) (getDocumentsByCollection s ''news'')"
    using assms(2,3) by (auto simp: list_ex_iff)
  with assms(1) show ?thesis
    unfolding deleteCategory_def Let_def by simp
qed

lemma store_restrict_news:
  "getDocumentsByCollection store_restrict ''news'' = [news_a]"
  by (simp add: getDocumentsByCollection_def store_restrict_def example_store_def
      existsSync_def readJsonlFile_def collection_path_def)

theorem deleteCategory_restrict_blocks_witness:
  "isValidAidb store_restrict
   \<and> news_a \<in> set (getDocumentsByCollection store_restrict ''news'')
   \<and> meta news_a ''categoryId'' = Some (JStr ''cat_tech'')
   \<and> deleteCategory store_restrict ''cat_tech'' =
       (Inl (400, ''Cannot delete category '' @ sq @ ''cat_tech'' @ sq
                  @ '': it is referenced by news articles (restrict constraint)''), store_restrict)"
proof -
  have v: "isValidAidb store_restrict"
    by (simp add: isValidAidb_def existsSync_def store_restrict_def example_store_def)
  have m: "news_a \<in> set (getDocumentsByCollection store_restrict ''news'')"
    by (simp add: store_restrict_news)
  have c: "meta news_a ''categoryId'' = Some (JStr ''cat_tech'')"
    by (simp add: meta_def news_a_def example_node_def)
  from deleteCategory_restrict_blocks [OF v m c] v m c show ?thesis by simp
qed

lemma store_no_root_file_facts:
  "\<not> isValidAidb store_no_root_file"
  "getDocumentsByCollection store_no_root_file ''news'' = [news_a]"
  "getDocumentsByCollection store_no_root_file ''categories'' = [cat_tech]"
  by (simp_all add: isValidAidb_def getDocumentsByCollection_def existsSync_def readJsonlFile_def
      collection_path_def store_no_root_file_def example_store_def)

text \<open>
  The claim C1 as stated covers every store state. On a store root that holds only the
  per-collection files (no \<open>documents.jsonl\<close>, no \<open>hnsw.index\<close>, no \<open>graph\<close>) the first
  guard of the route answers "Invalid database path", although an article references the
  category; the store is left as it was found there too.
\<close>

theorem deleteCategory_invalid_root:
  "news_a \<in> set (getDocumentsByCollection store_no_root_file ''news'')
   \<and> meta news_a ''categoryId'' = Some (JStr ''cat_tech'')
   \<and> deleteCategory store_no_root_file ''cat_tech'' =
        (Inl (400, ''Invalid database path''), store_no_root_file)"
  by (simp add: store_no_root_file_facts deleteCategory_def meta_def news_a_def example_node_def)

section \<open>Foreign keys on article creation\<close>

lemma store_restrict_valid: "isValidAidb store_restrict"
  by (simp add: isValidAidb_def existsSync_def store_restrict_def example_store_def)

lemma store_restrict_categories:
  "getDocumentsByCollection store_restrict ''categories'' = [cat_tech]"
  by (simp add: getDocumentsByCollection_def store_restrict_def example_store_def
      existsSync_def readJsonlFile_def collection_path_def)

text \<open>
  Claim C4, amended. On a valid store root (\<open>isValidAidb\<close>), a \<open>createArticle\<close> request
  with title, content, \<open>categoryId\<close> and \<open>authorId\<close> present whose \<open>categoryId\<close> is the
  id of no document of the merged categories collection is answered with status 400 and the
  foreign-key violation text, which names the field \<open>categoryId\<close>, the offending id and the
  target collection \<open>categories\<close>; the store is returned as it was found, so nothing is
  appended to the news collection.
\<close>

theorem createArticle_unknown_category:
  assumes "isValidAidb s"
    and "present (ab_title b)" and "present (ab_content b)"
    and "present (ab_categoryId b)" and "present (ab_authorId b)"
    and "the (ab_categoryId b) \<notin> node_id ` set (getDocumentsByCollection s ''categories'')"
  shows "createArticle s b now uuid =
           (Inl (400, ''Foreign key constraint violation: categoryId '' @ sq @ the (ab_categoryId b) @ sq
                      @ '' not found in categories''), s)"
proof -
  have "\<not> list_ex (\<lambda>c. node_id c = the (ab_categoryId b)) (getDocumentsByCollection s ''categories'')"
    using assms(6) unfolding list_ex_iff by force
  with assms(1-5) show ?thesis
    unfolding createArticle_def Let_def by simp
qed

theorem createArticle_unknown_category_witness:
  "isValidAidb store_restrict
   \<and> present (ab_title body_unknown_category) \<and> present (ab_content body_unknown_category)
   \<and> present (ab_categoryId body_unknown_category) \<and> present (ab_authorId body_unknown_category)
   \<and> the (ab_categoryId body_unknown_category)
        \<notin> node_id ` set (getDocumentsByCollection store_restrict ''categories'')
   \<and> createArticle store_restrict body_unknown_category 1000 ''abcd1234'' =
       (Inl (400, ''Foreign key constraint violation: categoryId '' @ sq @ ''cat_none'' @ sq
                  @ '' not found in categories''), store_restrict)"
proof -
  have p: "present (ab_title body_unknown_category)" "present (ab_content body_unknown_category)"
    "present (ab_categoryId body_unknown_category)" "present (ab_authorId body_unknown_category)"
    by (simp_all add: present_def body_unknown_category_def)
  have n: "the (ab_categoryId body_unknown_category)
        \<notin> node_id ` set (getDocumentsByCollection store_restrict ''categories'')"
    by (simp add: store_restrict_categories body_unknown_category_def cat_tech_def example_node_def)
  have e: "the (ab_categoryId body_unknown_category) = ''cat_none''"
    by (simp add: body_unknown_category_def)
  from createArticle_unknown_category [OF store_restrict_valid p n, of 1000 "''abcd1234''"]
  show ?thesis using store_restrict_valid p n e by simp
qed

text \<open>
  The claim C4 as stated names the guards on the request fields but not the guard on the
  store root. On a store root that holds only the per-collection files the route answers
  "Invalid database path" to the same request; nothing is written there either.
\<close>

theorem createArticle_invalid_root:
  "present (ab_title body_unknown_category) \<and> present (ab_content body_unknown_category)
   \<and> present (ab_categoryId body_unknown_category) \<and> present (ab_authorId body_unknown_category)
   \<and> the (ab_categoryId body_unknown_category)
        \<notin> node_id ` set (getDocumentsByCollection store_no_root_file ''categories'')
   \<and> createArticle store_no_root_file body_unknown_category 1000 ''abcd1234'' =
        (Inl (400, ''Invalid database path''), store_no_root_file)"
  by (simp add: store_no_root_file_facts createArticle_def present_def body_unknown_category_def
      cat_tech_def example_node_def)

section \<open>The merge rule of the collection reader\<close>

lemma fold_push_filter:
  "fold (\<lambda>doc acc. if P doc then acc @ [doc] else acc) xs acc = acc @ filter P xs"
  by (induction xs arbitrary: acc) simp_all

lemma getDocumentsByCollection_eq:
  "getDocumentsByCollection s c =
     readCollectionFile s c
     @ filter (\<lambda>d. meta d ''_collection'' = Some (JStr c)
                    \<and> node_id d \<notin> set (map node_id (readCollectionFile s c)))
         (readJsonlFile s ''documents.jsonl'')"
  by (simp add: getDocumentsByCollection_def readCollectionFile_def Let_def fold_push_filter
      existsSync_def readJsonlFile_def)

lemma distinct_map_filter_conj:
  assumes "distinct (map f (filter P ys))"
  shows "distinct (map f (filter (\<lambda>d. P d \<and> Q d) ys))"
proof -
  have "filter (\<lambda>d. P d \<and> Q d) ys = filter Q (filter P ys)"
    by simp
  then show ?thesis
    using assms by (simp only: distinct_map_filter)
qed

lemma disjoint_image:
  assumes "\<And>d. d \<in> B \<Longrightarrow> f d \<notin> A"
  shows "A \<inter> f ` B = {}"
  using assms by auto

lemma distinct_merge:
  assumes "distinct (map f xs)" and "distinct (map f (filter P ys))"
  shows "distinct (map f (xs @ filter (\<lambda>d. P d \<and> f d \<notin> set (map f xs)) ys))"
proof -
  let ?zs = "filter (\<lambda>d. P d \<and> f d \<notin> set (map f xs)) ys"
  have "distinct (map f ?zs)"
    using assms(2) by (rule distinct_map_filter_conj)
  moreover have "f d \<notin> set (map f xs)" if "d \<in> set ?zs" for d
    using that by simp
  then have "set (map f xs) \<inter> f ` set ?zs = {}"
    by (rule disjoint_image)
  then have "set (map f xs) \<inter> set (map f ?zs) = {}"
    by (simp only: set_map)
  ultimately show ?thesis
    using assms(1) by (simp only: map_append distinct_append)
qed

lemma node_ids:
  "node_id cat_tech = ''cat_tech''" "node_id cat_tech_legacy = ''cat_tech''"
  "node_id cat_old = ''cat_old''" "node_id cat_old_again = ''cat_old''"
  "node_id user_ann = ''user_ann''" "node_id news_a = ''news_a''"
  by (simp_all add: cat_tech_def cat_tech_legacy_def cat_old_def cat_old_again_def user_ann_def
      news_a_def example_node_def)

lemma collection_tags:
  "meta cat_tech ''_collection'' = Some (JStr ''categories'')"
  "meta cat_tech_legacy ''_collection'' = Some (JStr ''categories'')"
  "meta cat_old ''_collection'' = Some (JStr ''categories'')"
  "meta cat_old_again ''_collection'' = Some (JStr ''categories'')"
  "meta user_ann ''_collection'' = Some (JStr ''users'')"
  "meta news_a ''_collection'' = Some (JStr ''news'')"
  by (simp_all add: meta_def cat_tech_def cat_tech_legacy_def cat_old_def cat_old_again_def
      user_ann_def news_a_def example_node_def)

lemma store_merge_files:
  "readCollectionFile store_merge ''categories'' = [cat_tech]"
  "readJsonlFile store_merge ''documents.jsonl'' = [cat_tech_legacy, user_ann, cat_old]"
  by (simp_all add: readCollectionFile_def readJsonlFile_def existsSync_def collection_path_def
      store_merge_def example_store_def)

text \<open>
  The claim C6 as stated ends with "consequently no id occurs twice in the returned
  sequence". The reader removes only the shared-file documents whose id occurs in the
  dedicated file: with two documents of one id tagged \<open>categories\<close> in the shared
  \<open>documents.jsonl\<close> and neither id in the dedicated file, both are returned.
\<close>

theorem getDocumentsByCollection_duplicate_ids:
  "getDocumentsByCollection store_legacy_duplicates ''categories'' = [cat_tech, cat_old, cat_old_again]
   \<and> \<not> distinct (map node_id (getDocumentsByCollection store_legacy_duplicates ''categories''))"
  by (simp add: getDocumentsByCollection_def readJsonlFile_def existsSync_def collection_path_def
      store_legacy_duplicates_def example_store_def node_ids collection_tags)

text \<open>
  Claim C6, amended. For every collection name and store state the reader returns exactly
  the documents of the dedicated file \<open>{collection}/documents.jsonl\<close> in file order,
  followed by those documents of the shared \<open>documents.jsonl\<close>, in file order, whose
  \<open>metadata._collection\<close> equals the collection name and whose id does not occur among
  the dedicated-file documents (a missing file counts as empty). Whenever no id occurs
  twice in the dedicated file and no id occurs twice among the shared-file documents tagged
  for the collection, no id occurs twice in the returned sequence.
\<close>

theorem getDocumentsByCollection_merge:
  "getDocumentsByCollection s c =
     readCollectionFile s c
     @ filter (\<lambda>d. meta d ''_collection'' = Some (JStr c)
                    \<and> node_id d \<notin> set (map node_id (readCollectionFile s c)))
         (readJsonlFile s ''documents.jsonl'')
   \<and> (distinct (map node_id (readCollectionFile s c))
        \<and> distinct (map node_id (filter (\<lambda>d. meta d ''_collection'' = Some (JStr c))
                                    (readJsonlFile s ''documents.jsonl'')))
       \<longrightarrow> distinct (map node_id (getDocumentsByCollection s c)))"
  using distinct_merge [of node_id "readCollectionFile s c"
      "\<lambda>d. meta d ''_collection'' = Some (JStr c)" "readJsonlFile s ''documents.jsonl''"]
  by (simp only: getDocumentsByCollection_eq) blast

theorem getDocumentsByCollection_merge_witness:
  "distinct (map node_id (readCollectionFile store_merge ''categories''))
   \<and> distinct (map node_id (filter (\<lambda>d. meta d ''_collection'' = Some (JStr ''categories''))
                               (readJsonlFile store_merge ''documents.jsonl'')))
   \<and> getDocumentsByCollection store_merge ''categories'' = [cat_tech, cat_old]
   \<and> distinct (map node_id (getDocumentsByCollection store_merge ''categories''))"
  using getDocumentsByCollection_merge [of store_merge "''categories''"]
  by (simp add: store_merge_files node_ids collection_tags)

section \<open>Creating a category and listing it\<close>

lemma parse_lines_append: "parse_lines (xs @ ys) = parse_lines xs @ parse_lines ys"
  by (induction xs rule: parse_lines.induct) simp_all

lemma parse_lines_Doc: "parse_lines (map Doc ds) = ds"
  by (induction ds) simp_all

lemma collection_path_not_legacy: "collection_path c \<noteq> ''documents.jsonl''"
proof
  assume "collection_path c = ''documents.jsonl''"
  then have "CHR ''/'' \<in> set ''documents.jsonl''"
    unfolding collection_path_def by (metis in_set_conv_decomp append_Cons)
  then show False by simp
qed

lemma collection_path_inj: "collection_path c = collection_path c' \<longleftrightarrow> c = c'"
  by (simp add: collection_path_def)



lemma readCollectionFile_append_other:
  "c' \<noteq> c \<Longrightarrow> readCollectionFile (appendFileSync s (collection_path c) d) c' = readCollectionFile s c'"
  by (simp add: readCollectionFile_def existsSync_def readJsonlFile_def appendFileSync_def
      collection_path_inj)













section \<open>Documents that exist only in the shared file\<close>













section \<open>Cascade on article deletion\<close>

lemma files_writeFileSync:
  "files (writeFileSync s p ls) q = (if q = p then Some ls else files s q)"
  by (simp add: writeFileSync_def)

lemma existsSync_writeFileSync:
  "existsSync (writeFileSync s p ls) q \<longleftrightarrow> q = p \<or> existsSync s q"
  by (simp add: existsSync_def files_writeFileSync)

lemma readJsonlFile_writeFileSync:
  "readJsonlFile (writeFileSync s p ls) q = (if q = p then parse_lines ls else readJsonlFile s q)"
  by (simp add: readJsonlFile_def files_writeFileSync)

lemma isValidAidb_writeFileSync: "isValidAidb s \<Longrightarrow> isValidAidb (writeFileSync s p ls)"
  by (auto simp: isValidAidb_def existsSync_writeFileSync) (simp add: writeFileSync_def)+

lemma readCollectionFile_write_same:
  "readCollectionFile (writeFileSync s (collection_path c) (map Doc ds)) c = ds"
  by (simp add: readCollectionFile_def existsSync_writeFileSync readJsonlFile_writeFileSync
      parse_lines_Doc)

lemma readCollectionFile_write_other:
  "c' \<noteq> c \<Longrightarrow> readCollectionFile (writeFileSync s (collection_path c) ls) c' = readCollectionFile s c'"
  by (simp add: readCollectionFile_def existsSync_writeFileSync readJsonlFile_writeFileSync
      collection_path_inj)

lemma legacy_write_collection:
  "readJsonlFile (writeFileSync s (collection_path c) ls) ''documents.jsonl'' = readJsonlFile s ''documents.jsonl''"
  using collection_path_not_legacy [of c]
  by (simp add: readJsonlFile_writeFileSync)

lemma getDocumentsByCollection_write_other:
  "c' \<noteq> c \<Longrightarrow>
   getDocumentsByCollection (writeFileSync s (collection_path c) ls) c' = getDocumentsByCollection s c'"
  by (simp add: getDocumentsByCollection_eq readCollectionFile_write_other legacy_write_collection)

lemma readCollectionFile_member:
  assumes "x \<in> set (readCollectionFile s c)"
  shows "existsSync s (collection_path c)"
    and "readJsonlFile s (collection_path c) = readCollectionFile s c"
  using assms by (auto simp: readCollectionFile_def split: if_splits)

lemma length_filter_drop:
  assumes "x \<in> set xs" and "\<not> P x"
  shows "length (filter P xs) < length xs"
  using assms by (rule length_filter_less)

lemma dedicated_in_merged:
  "x \<in> set (readCollectionFile s c) \<Longrightarrow> x \<in> set (getDocumentsByCollection s c)"
  by (simp add: getDocumentsByCollection_eq)

lemma deleteArticle_success:
  assumes "isValidAidb s"
    and "a \<in> set (readCollectionFile s ''news'')" and "node_id a = aid"
    and "c \<in> set (readCollectionFile s ''comments'')" and "meta c ''newsId'' = Some (JStr aid)"
  shows "deleteArticle s aid =
           (Inr (),
            writeFileSync
              (writeFileSync s (collection_path ''news'')
                 (map Doc (filter (\<lambda>n. node_id n \<noteq> aid) (readCollectionFile s ''news''))))
              (collection_path ''comments'')
              (map Doc (filter (\<lambda>c. meta c ''newsId'' \<noteq> Some (JStr aid))
                          (getDocumentsByCollection s ''comments''))))"
proof -
  let ?s1 = "writeFileSync s (collection_path ''news'')
                 (map Doc (filter (\<lambda>n. node_id n \<noteq> aid) (readCollectionFile s ''news'')))"
  have e: "existsSync s (collection_path ''news'')"
    and r: "readJsonlFile s (collection_path ''news'') = readCollectionFile s ''news''"
    using readCollectionFile_member [OF assms(2)] by simp_all
  have l: "length (filter (\<lambda>n. node_id n \<noteq> aid) (readCollectionFile s ''news''))
             \<noteq> length (readCollectionFile s ''news'')"
    using length_filter_drop [OF assms(2), of "\<lambda>n. node_id n \<noteq> aid"] assms(3) by simp
  have g: "getDocumentsByCollection ?s1 ''comments'' = getDocumentsByCollection s ''comments''"
    by (simp add: getDocumentsByCollection_write_other)
  have m: "c \<in> set (getDocumentsByCollection s ''comments'')"
    using assms(4) by (rule dedicated_in_merged)
  have k: "length (filter (\<lambda>c. meta c ''newsId'' \<noteq> Some (JStr aid)) (getDocumentsByCollection s ''comments''))
             < length (getDocumentsByCollection s ''comments'')"
    using length_filter_drop [OF m, of "\<lambda>c. meta c ''newsId'' \<noteq> Some (JStr aid)"] assms(5) by simp
  have x: "existsSync ?s1 (collection_path ''comments'')"
    using readCollectionFile_member(1) [OF assms(4)] by (simp add: existsSync_writeFileSync)
  show ?thesis
    unfolding deleteArticle_def Let_def r g
    using assms(1) e l k x by simp
qed

lemma distinct_same_id:
  assumes "distinct (map f xs)" and "x \<in> set xs" and "y \<in> set xs" and "f x = f y"
  shows "x = y"
  using assms by (meson distinct_map inj_onD)

text \<open>
  The cascade reaches the comments of the dedicated file. On a valid store root, let the
  article be a document of \<open>news/documents.jsonl\<close>, let two of its comments be documents of
  \<open>comments/documents.jsonl\<close>, in which no id occurs twice, and let no document of the
  shared \<open>documents.jsonl\<close> tagged for the comments collection carry the id of the article
  as \<open>newsId\<close> or the id of one of the two comments. Then \<open>deleteArticle\<close> succeeds; in
  the store it leaves, no document of the news file has the id of the article,
  \<open>listComments\<close> returns the empty list for the article, and neither comment id is the id
  of a comment of the merged comments collection.
\<close>

lemma deleteArticle_cascade_dedicated:
  assumes "isValidAidb s"
    and "a \<in> set (readCollectionFile s ''news'')" and "node_id a = aid"
    and "c1 \<in> set (readCollectionFile s ''comments'')" and "meta c1 ''newsId'' = Some (JStr aid)"
    and "c2 \<in> set (readCollectionFile s ''comments'')" and "meta c2 ''newsId'' = Some (JStr aid)"
    and "meta c2 ''parentId'' = Some (JStr (node_id c1))"
    and "distinct (map node_id (readCollectionFile s ''comments''))"
    and "\<forall>d \<in> set (readJsonlFile s ''documents.jsonl'').
           meta d ''_collection'' = Some (JStr ''comments'') \<longrightarrow>
           meta d ''newsId'' \<noteq> Some (JStr aid) \<and> node_id d \<noteq> node_id c1 \<and> node_id d \<noteq> node_id c2"
  shows "\<exists>s'. deleteArticle s aid = (Inr (), s')
            \<and> aid \<notin> node_id ` set (readCollectionFile s' ''news'')
            \<and> listComments s' (Some aid) = Inr []
            \<and> node_id c1 \<notin> node_id ` set (getDocumentsByCollection s' ''comments'')
            \<and> node_id c2 \<notin> node_id ` set (getDocumentsByCollection s' ''comments'')"
proof -
  let ?news = "filter (\<lambda>n. node_id n \<noteq> aid) (readCollectionFile s ''news'')"
  let ?fc = "filter (\<lambda>c. meta c ''newsId'' \<noteq> Some (JStr aid)) (getDocumentsByCollection s ''comments'')"
  let ?s1 = "writeFileSync s (collection_path ''news'') (map Doc ?news)"
  let ?s2 = "writeFileSync ?s1 (collection_path ''comments'') (map Doc ?fc)"
  let ?L = "readJsonlFile s ''documents.jsonl''"
  have d: "deleteArticle s aid = (Inr (), ?s2)"
    using assms(1-5) by (rule deleteArticle_success)
  have v: "isValidAidb ?s2"
    using assms(1) by (intro isValidAidb_writeFileSync)
  have n: "readCollectionFile ?s2 ''news'' = ?news"
    by (simp add: readCollectionFile_write_other readCollectionFile_write_same)
  have 1: "aid \<notin> node_id ` set (readCollectionFile ?s2 ''news'')"
    unfolding n by (simp only: set_filter) blast
  have m: "getDocumentsByCollection ?s2 ''comments'' =
             ?fc @ filter (\<lambda>d. meta d ''_collection'' = Some (JStr ''comments'')
                              \<and> node_id d \<notin> set (map node_id ?fc)) ?L"
  proof -
    have "readCollectionFile ?s2 ''comments'' = ?fc"
      by (rule readCollectionFile_write_same)
    moreover have "readJsonlFile ?s2 ''documents.jsonl'' = ?L"
      by (simp only: legacy_write_collection)
    ultimately show ?thesis
      using getDocumentsByCollection_eq [of ?s2 "''comments''"] by (simp only:)
  qed
  have split: "x \<in> set ?fc \<or> (x \<in> set ?L \<and> meta x ''_collection'' = Some (JStr ''comments''))"
    if "x \<in> set (getDocumentsByCollection ?s2 ''comments'')" for x
    using that unfolding m by (simp only: set_append Un_iff set_filter mem_Collect_eq) blast
  have other: "meta x ''newsId'' \<noteq> Some (JStr aid)"
    if "x \<in> set (getDocumentsByCollection ?s2 ''comments'')" for x
  proof -
    from split [OF that] show ?thesis
    proof
      assume "x \<in> set ?fc"
      then show ?thesis by simp
    next
      assume "x \<in> set ?L \<and> meta x ''_collection'' = Some (JStr ''comments'')"
      with assms(10) show ?thesis by blast
    qed
  qed
  then have "filter (\<lambda>c. meta c ''newsId'' = Some (JStr aid)) (getDocumentsByCollection ?s2 ''comments'') = []"
    by (simp only: filter_empty_conv) blast
  then have 2: "listComments ?s2 (Some aid) = Inr []"
    using v by (simp add: listComments_def Let_def)
  have gone: "node_id c \<notin> node_id ` set (getDocumentsByCollection ?s2 ''comments'')"
    if c: "c \<in> set (readCollectionFile s ''comments'')" "meta c ''newsId'' = Some (JStr aid)"
      and l: "\<And>d. d \<in> set ?L \<Longrightarrow> meta d ''_collection'' = Some (JStr ''comments'')
                \<Longrightarrow> node_id d \<noteq> node_id c"
    for c
  proof
    assume "node_id c \<in> node_id ` set (getDocumentsByCollection ?s2 ''comments'')"
    then have "\<exists>x \<in> set (getDocumentsByCollection ?s2 ''comments''). node_id c = node_id x"
      by (simp only: image_iff)
    then obtain x where x: "x \<in> set (getDocumentsByCollection ?s2 ''comments'')"
      and eq': "node_id c = node_id x" ..
    note eq = eq' [symmetric]
    from split [OF x] show False
    proof
      assume f: "x \<in> set ?fc"
      then have k: "meta x ''newsId'' \<noteq> Some (JStr aid)"
        by simp
      from f have "x \<in> set (getDocumentsByCollection s ''comments'')"
        by simp
      then have "x \<in> set (readCollectionFile s ''comments'')
                 \<or> (x \<in> set ?L \<and> meta x ''_collection'' = Some (JStr ''comments''))"
        unfolding getDocumentsByCollection_eq
        by (simp only: set_append Un_iff set_filter mem_Collect_eq) blast
      then show False
      proof
        assume xr: "x \<in> set (readCollectionFile s ''comments'')"
        have "x = c"
          by (rule distinct_same_id [OF assms(9) xr c(1) eq])
        with k c(2) show False by simp
      next
        assume "x \<in> set ?L \<and> meta x ''_collection'' = Some (JStr ''comments'')"
        with l eq show False by blast
      qed
    next
      assume "x \<in> set ?L \<and> meta x ''_collection'' = Some (JStr ''comments'')"
      with l eq show False by blast
    qed
  qed
  have 3: "node_id c1 \<notin> node_id ` set (getDocumentsByCollection ?s2 ''comments'')"
    using assms(4,5)
  proof (rule gone)
    fix d assume "d \<in> set ?L" "meta d ''_collection'' = Some (JStr ''comments'')"
    with assms(10) show "node_id d \<noteq> node_id c1" by blast
  qed
  have 4: "node_id c2 \<notin> node_id ` set (getDocumentsByCollection ?s2 ''comments'')"
    using assms(6,7)
  proof (rule gone)
    fix d assume "d \<in> set ?L" "meta d ''_collection'' = Some (JStr ''comments'')"
    with assms(10) show "node_id d \<noteq> node_id c2" by blast
  qed
  from d 1 2 3 4 show ?thesis by (intro exI [of _ ?s2] conjI)
qed

lemma comment_facts:
  "node_id comment_c1 = ''comment_c1''" "node_id comment_c2 = ''comment_c2''"
  "node_id comment_other = ''comment_other''"
  "meta comment_c1 ''newsId'' = Some (JStr ''news_a'')"
  "meta comment_c2 ''newsId'' = Some (JStr ''news_a'')"
  "meta comment_other ''newsId'' = Some (JStr ''news_old'')"
  "meta comment_c2 ''parentId'' = Some (JStr ''comment_c1'')"
  "meta comment_c1 ''_collection'' = Some (JStr ''comments'')"
  "meta comment_c2 ''_collection'' = Some (JStr ''comments'')"
  "meta comment_other ''_collection'' = Some (JStr ''comments'')"
  "created_at comment_c1 = 100" "created_at comment_c2 = 200" "created_at comment_other = 150"
  by (simp_all add: meta_def comment_c1_def comment_c2_def comment_other_def example_node_def)

lemma store_cascade_files:
  "readJsonlFile store_cascade ''documents.jsonl'' = [comment_other]"
  "readCollectionFile store_cascade ''news'' = [news_a]"
  "readCollectionFile store_cascade ''comments'' = [comment_c1, comment_c2]"
  by (simp_all add: readCollectionFile_def readJsonlFile_def existsSync_def collection_path_def
      store_cascade_def example_store_def)

lemma store_cascade_valid: "isValidAidb store_cascade"
  by (simp add: isValidAidb_def existsSync_def store_cascade_def example_store_def)

lemma deleteArticle_cascade_dedicated_example:
  "isValidAidb store_cascade
   \<and> news_a \<in> set (readCollectionFile store_cascade ''news'') \<and> node_id news_a = ''news_a''
   \<and> comment_c1 \<in> set (readCollectionFile store_cascade ''comments'')
   \<and> meta comment_c1 ''newsId'' = Some (JStr ''news_a'')
   \<and> comment_c2 \<in> set (readCollectionFile store_cascade ''comments'')
   \<and> meta comment_c2 ''newsId'' = Some (JStr ''news_a'')
   \<and> meta comment_c2 ''parentId'' = Some (JStr (node_id comment_c1))
   \<and> distinct (map node_id (readCollectionFile store_cascade ''comments''))
   \<and> readJsonlFile store_cascade ''documents.jsonl'' = [comment_other]
   \<and> meta comment_other ''_collection'' = Some (JStr ''comments'')
   \<and> meta comment_other ''newsId'' \<noteq> Some (JStr ''news_a'')
   \<and> node_id comment_other \<noteq> node_id comment_c1
   \<and> node_id comment_other \<noteq> node_id comment_c2
   \<and> (\<exists>s'. deleteArticle store_cascade ''news_a'' = (Inr (), s')
            \<and> ''news_a'' \<notin> node_id ` set (readCollectionFile s' ''news'')
            \<and> listComments s' (Some ''news_a'') = Inr []
            \<and> node_id comment_c1 \<notin> node_id ` set (getDocumentsByCollection s' ''comments'')
            \<and> node_id comment_c2 \<notin> node_id ` set (getDocumentsByCollection s' ''comments''))"
proof -
  have h: "news_a \<in> set (readCollectionFile store_cascade ''news'')" "node_id news_a = ''news_a''"
    "comment_c1 \<in> set (readCollectionFile store_cascade ''comments'')"
    "meta comment_c1 ''newsId'' = Some (JStr ''news_a'')"
    "comment_c2 \<in> set (readCollectionFile store_cascade ''comments'')"
    "meta comment_c2 ''newsId'' = Some (JStr ''news_a'')"
    "meta comment_c2 ''parentId'' = Some (JStr (node_id comment_c1))"
    "distinct (map node_id (readCollectionFile store_cascade ''comments''))"
    "\<forall>d \<in> set (readJsonlFile store_cascade ''documents.jsonl'').
           meta d ''_collection'' = Some (JStr ''comments'') \<longrightarrow>
           meta d ''newsId'' \<noteq> Some (JStr ''news_a'') \<and> node_id d \<noteq> node_id comment_c1
           \<and> node_id d \<noteq> node_id comment_c2"
    by (simp_all add: store_cascade_files comment_facts node_ids)
  have o: "readJsonlFile store_cascade ''documents.jsonl'' = [comment_other]"
    "meta comment_other ''_collection'' = Some (JStr ''comments'')"
    "meta comment_other ''newsId'' \<noteq> Some (JStr ''news_a'')"
    "node_id comment_other \<noteq> node_id comment_c1"
    "node_id comment_other \<noteq> node_id comment_c2"
    by (simp_all add: store_cascade_files comment_facts)
  from deleteArticle_cascade_dedicated [OF store_cascade_valid h]
  show ?thesis
    using store_cascade_valid h(1-8) o by (intro conjI)
qed

text \<open>
  \<open>deleteArticle\<close> reads the article from \<open>news/documents.jsonl\<close> only (the guard "News
  collection not found"): with the article and its comments in the shared
  \<open>documents.jsonl\<close> alone, the route answers 404 and removes nothing.
\<close>

lemma deleteArticle_legacy_article:
  "isValidAidb store_legacy_article
   \<and> getDocumentsByCollection store_legacy_article ''news'' = [news_a]
   \<and> getDocumentsByCollection store_legacy_article ''comments'' = [comment_c1, comment_c2]
   \<and> meta comment_c1 ''newsId'' = Some (JStr (node_id news_a))
   \<and> meta comment_c2 ''newsId'' = Some (JStr (node_id news_a))
   \<and> meta comment_c2 ''parentId'' = Some (JStr (node_id comment_c1))
   \<and> deleteArticle store_legacy_article (node_id news_a) =
        (Inl (404, ''News collection not found''), store_legacy_article)"
proof -
  have l: "readJsonlFile store_legacy_article ''documents.jsonl'' =
             [cat_tech, user_ann, news_a, comment_c1, comment_c2]"
    and n: "\<not> existsSync store_legacy_article (collection_path ''news'')"
    and r: "readCollectionFile store_legacy_article ''news'' = []"
      "readCollectionFile store_legacy_article ''comments'' = []"
    and v: "isValidAidb store_legacy_article"
    by (simp_all add: readCollectionFile_def readJsonlFile_def existsSync_def collection_path_def
        isValidAidb_def store_legacy_article_def example_store_def)
  have d: "deleteArticle store_legacy_article (node_id news_a) =
        (Inl (404, ''News collection not found''), store_legacy_article)"
    using v n by (simp add: deleteArticle_def)
  have g: "getDocumentsByCollection store_legacy_article ''news'' = [news_a]"
    "getDocumentsByCollection store_legacy_article ''comments'' = [comment_c1, comment_c2]"
    by (simp_all add: getDocumentsByCollection_eq l r collection_tags comment_facts)
  from v g d show ?thesis
    by (simp add: comment_facts node_ids)
qed

section \<open>Where the create routes persist\<close>

lemma createCategory_target:
  "snd (createCategory s b now) = s
   \<or> (\<exists>d. createCategory s b now = (Inr d, appendFileSync s (collection_path ''categories'') d))"
  unfolding createCategory_def Let_def by simp

lemma createArticle_target:
  "snd (createArticle s b now uuid) = s
   \<or> (\<exists>d. createArticle s b now uuid = (Inr d, appendFileSync s (collection_path ''news'') d))"
  unfolding createArticle_def Let_def by simp

lemma createComment_target:
  "snd (createComment s b now uuid) = s
   \<or> (\<exists>d. createComment s b now uuid = (Inr d, appendFileSync s ''documents.jsonl'' d))"
  unfolding createComment_def Let_def by simp

lemma store_restrict_users:
  "getDocumentsByCollection store_restrict ''users'' = [user_ann]"
  by (simp add: getDocumentsByCollection_def store_restrict_def example_store_def
      existsSync_def readJsonlFile_def collection_path_def)

lemma store_restrict_shared_file:
  "files store_restrict ''documents.jsonl'' = Some []"
  "files store_restrict (collection_path ''comments'') = None"
  "files store_restrict ''comments/documents.jsonl'' = None"
  by (simp_all add: store_restrict_def example_store_def collection_path_def)

text \<open>
  Claim C5 states that every create operation persists its document in
  \<open>{collection}/documents.jsonl\<close> and that no operation writes the shared
  \<open>documents.jsonl\<close> of the store root. \<open>createCategory\<close> and \<open>createArticle\<close> append
  to their dedicated file, but \<open>createComment\<close> appends to the shared file: in
  \<open>store_restrict\<close>, whose shared file is empty and which has no comments file, a
  successful \<open>createComment\<close> leaves the new comment as a line of \<open>documents.jsonl\<close>, and
  there still is no \<open>comments/documents.jsonl\<close>.
\<close>

theorem createComment_writes_shared_file:
  "readJsonlFile store_restrict ''documents.jsonl'' = []
   \<and> \<not> existsSync store_restrict (collection_path ''comments'')
   \<and> \<not> isl (fst (createComment store_restrict body_comment 2000 ''c0ffee00''))
   \<and> map node_id (readJsonlFile (snd (createComment store_restrict body_comment 2000 ''c0ffee00''))
                     ''documents.jsonl'') = [''comment_c0ffee00'']
   \<and> \<not> existsSync (snd (createComment store_restrict body_comment 2000 ''c0ffee00''))
          (collection_path ''comments'')"
proof -
  have p: "present (mb_content body_comment)" "present (mb_newsId body_comment)"
    "present (mb_authorId body_comment)" "\<not> present (mb_parentId body_comment)"
    "the (mb_newsId body_comment) = ''news_a''" "the (mb_authorId body_comment) = ''user_ann''"
    by (simp_all add: body_comment_def present_def)
  show ?thesis
    unfolding createComment_def Let_def
    by (simp add: store_restrict_valid store_restrict_news store_restrict_users p node_ids
        appendFileSync_def store_restrict_shared_file collection_path_def readJsonlFile_def
        existsSync_def)
qed

theorem createComment_writes_shared_file_witness:
  "present (mb_content body_comment) \<and> present (mb_newsId body_comment)
   \<and> present (mb_authorId body_comment)
   \<and> map node_id (readJsonlFile (snd (createComment store_restrict body_comment 2000 ''c0ffee00''))
                     ''documents.jsonl'') = [''comment_c0ffee00'']
   \<and> \<not> existsSync (snd (createComment store_restrict body_comment 2000 ''c0ffee00''))
          (collection_path ''comments'')"
  using createComment_writes_shared_file by (simp add: present_def body_comment_def)

section \<open>Deleting a user\<close>

lemma readCollectionFile_write_lines:
  "readCollectionFile (writeFileSync s (collection_path c) ls) c = parse_lines ls"
  by (simp add: readCollectionFile_def existsSync_writeFileSync readJsonlFile_writeFileSync)

lemma store_restrict_after_deleteUser:
  "deleteUser store_restrict ''user_ann'' =
     (Inr (), writeFileSync store_restrict (collection_path ''users'') [Unparsed []])"
proof -
  have "readCollectionFile store_restrict ''users'' = [user_ann]"
    by (simp add: readCollectionFile_def readJsonlFile_def existsSync_def collection_path_def
        store_restrict_def example_store_def)
  then show ?thesis
    unfolding deleteUser_def Let_def
    by (simp add: store_restrict_valid node_ids writeCollectionFile_def)
qed

text \<open>
  Claim C3 states that after a successful \<open>deleteUser(U.id)\<close> every article written by
  \<open>U\<close> has \<open>authorId\<close> null. \<open>deleteUser\<close> rewrites \<open>users/documents.jsonl\<close> and
  nothing else: in \<open>store_restrict\<close>, after \<open>deleteUser\<close> of the author of \<open>news_a\<close>
  succeeded, the user is gone, the article is unchanged, and \<open>getArticle\<close> succeeds with
  \<open>authorId\<close> still the id of the deleted user and the populated author null.
\<close>

theorem deleteUser_keeps_authorId:
  "meta news_a ''authorId'' = Some (JStr ''user_ann'')
   \<and> fst (deleteUser store_restrict ''user_ann'') = Inr ()
   \<and> getDocumentsByCollection (snd (deleteUser store_restrict ''user_ann'')) ''users'' = []
   \<and> getDocumentsByCollection (snd (deleteUser store_restrict ''user_ann'')) ''news'' = [news_a]
   \<and> map_sum id art_authorId (getArticle (snd (deleteUser store_restrict ''user_ann'')) ''news_a'')
       = Inr (Some (JStr ''user_ann''))
   \<and> map_sum id art_author (getArticle (snd (deleteUser store_restrict ''user_ann'')) ''news_a'')
       = Inr None"
proof -
  let ?s' = "writeFileSync store_restrict (collection_path ''users'') [Unparsed []]"
  have a: "meta news_a ''authorId'' = Some (JStr ''user_ann'')"
    by (simp add: meta_def news_a_def example_node_def)
  have v: "isValidAidb ?s'"
    using store_restrict_valid by (rule isValidAidb_writeFileSync)
  have "readJsonlFile store_restrict ''documents.jsonl'' = []"
    by (simp add: readJsonlFile_def store_restrict_shared_file)
  then have u: "getDocumentsByCollection ?s' ''users'' = []"
    by (simp add: getDocumentsByCollection_eq readCollectionFile_write_lines legacy_write_collection)
  have "getDocumentsByCollection ?s' ''news'' = getDocumentsByCollection store_restrict ''news''"
    by (simp add: getDocumentsByCollection_write_other)
  then have n: "getDocumentsByCollection ?s' ''news'' = [news_a]"
    by (simp add: store_restrict_news)
  have g: "getArticle ?s' ''news_a'' =
             Inr (article_view (createLookupMap (getDocumentsByCollection ?s' ''categories''))
                    (createLookupMap []) news_a)"
    using v by (simp add: getArticle_def Let_def n u node_ids)
  show ?thesis
    unfolding store_restrict_after_deleteUser
    by (simp add: a u n g article_view_def Let_def lookup_ref_def createLookupMap_def)
qed

section \<open>Order of the article list\<close>

lemma draft_keys:
  "publishedAt_key news_d1 = 0" "publishedAt_key news_d2 = 0" "publishedAt_key news_p = 200"
  "node_id news_d1 = ''news_d1''" "node_id news_d2 = ''news_d2''" "node_id news_p = ''news_p''"
  "created_at news_d1 = 100" "created_at news_d2 = 300" "created_at news_p = 200"
  "meta news_d1 ''publishedAt'' = None" "meta news_d2 ''publishedAt'' = None"
  "meta news_p ''publishedAt'' = Some (JNum 200)"
  by (simp_all add: publishedAt_key_def meta_def news_d1_def news_d2_def news_p_def example_node_def)

text \<open>
  Claim C8 states that \<open>listArticles\<close> is sorted by \<open>publishedAt\<close> descending with
  \<open>created_at\<close> as the sort key of an article without \<open>publishedAt\<close>. The comparator of
  the route uses \<open>publishedAt || 0\<close>: articles without \<open>publishedAt\<close> come last, in
  stored order. With two drafts created at 100 and 300 and an article published at 200, the
  claimed order is draft 300, published 200, draft 100; the route returns the published
  article, then the drafts of 100 and 300, and the \<open>publishedAt\<close> values it reports
  (\<open>publishedAt || created_at\<close>) are 200, 100, 300.
\<close>

theorem listArticles_drafts_not_by_created_at:
  "getDocumentsByCollection store_drafts ''news'' = [news_d1, news_d2, news_p]
   \<and> map_sum id (map art_id \<circ> fst) (listArticles store_drafts None None None None None None)
       = Inr [''news_p'', ''news_d1'', ''news_d2'']
   \<and> map_sum id (map art_publishedAt \<circ> fst) (listArticles store_drafts None None None None None None)
       = Inr [JNum 200, JNum 100, JNum 300]"
proof -
  have v: "isValidAidb store_drafts"
    by (simp add: isValidAidb_def existsSync_def store_drafts_def example_store_def)
  have n: "getDocumentsByCollection store_drafts ''news'' = [news_d1, news_d2, news_p]"
    by (simp add: getDocumentsByCollection_def store_drafts_def example_store_def
      existsSync_def readJsonlFile_def collection_path_def)
  have l: "listArticles store_drafts None None None None None None =
             Inr (map (article_view (createLookupMap (getDocumentsByCollection store_drafts ''categories''))
                         (createLookupMap (getDocumentsByCollection store_drafts ''users'')))
                    [news_p, news_d1, news_d2], 3)"
    using v by (simp add: listArticles_def Let_def n draft_keys present_def slice_def)
  show ?thesis
    unfolding l using n by (simp add: article_view_def Let_def draft_keys or_else_def)
qed

section \<open>Order of the comment list\<close>

lemma comment_view_fields:
  "com_id (comment_view m d) = node_id d" "com_created_at (comment_view m d) = created_at d"
  by (simp_all add: comment_view_def Let_def)

lemma listComments_eq:
  assumes "isValidAidb s"
  shows "listComments s (Some nid) =
           Inr (map (comment_view (createLookupMap (getDocumentsByCollection s ''users'')))
                  (sort_key created_at
                     (filter (\<lambda>c. meta c ''newsId'' = Some (JStr nid))
                        (getDocumentsByCollection s ''comments''))))"
  using assms by (simp add: listComments_def Let_def)

lemma thread_facts:
  "node_id thread_c1 = ''c1''" "node_id thread_c2 = ''c2''" "node_id thread_c3 = ''c3''"
  "node_id tie_a = ''comment_a''" "node_id tie_b = ''comment_b''"
  "created_at thread_c1 = 100" "created_at thread_c2 = 50" "created_at thread_c3 = 200"
  "created_at tie_a = 100" "created_at tie_b = 100"
  "meta thread_c1 ''newsId'' = Some (JStr ''news_a'')" "meta thread_c2 ''newsId'' = Some (JStr ''news_a'')"
  "meta thread_c3 ''newsId'' = Some (JStr ''news_a'')"
  "meta tie_a ''newsId'' = Some (JStr ''news_a'')" "meta tie_b ''newsId'' = Some (JStr ''news_a'')"
  "meta thread_c1 ''_collection'' = Some (JStr ''comments'')"
  "meta thread_c2 ''_collection'' = Some (JStr ''comments'')"
  "meta thread_c3 ''_collection'' = Some (JStr ''comments'')"
  "meta tie_a ''_collection'' = Some (JStr ''comments'')"
  "meta tie_b ''_collection'' = Some (JStr ''comments'')"
  "meta thread_c3 ''parentId'' = Some (JStr ''c1'')"
  by (simp_all add: meta_def thread_c1_def thread_c2_def thread_c3_def tie_a_def tie_b_def example_node_def)

lemma store_thread_facts:
  "isValidAidb store_thread"
  "getDocumentsByCollection store_thread ''comments'' = [thread_c1, thread_c2, thread_c3]"
  by (simp_all add: isValidAidb_def getDocumentsByCollection_def existsSync_def readJsonlFile_def
      collection_path_def store_thread_def example_store_def thread_facts)

lemma store_ties_facts:
  "isValidAidb store_ties"
  "getDocumentsByCollection store_ties ''comments'' = [tie_b, tie_a]"
  by (simp_all add: isValidAidb_def getDocumentsByCollection_def existsSync_def readJsonlFile_def
      collection_path_def store_ties_def example_store_def thread_facts)

text \<open>
  The comparator of the route is \<open>a.created_at - b.created_at\<close> and the sort is stable: two
  comments created at the same time, stored as \<open>comment_b\<close> then \<open>comment_a\<close>, are
  returned in that order.
\<close>

lemma listComments_ties_in_stored_order:
  "getDocumentsByCollection store_ties ''comments'' = [tie_b, tie_a]
   \<and> created_at tie_b = created_at tie_a
   \<and> map_sum id (map com_id) (listComments store_ties (Some ''news_a''))
       = Inr [''comment_b'', ''comment_a'']"
  by (simp add: listComments_eq store_ties_facts thread_facts comment_view_fields)

text \<open>
  Claim C7 states that \<open>listComments\<close> returns a forest: root comments in order, each
  comment with a \<open>replies\<close> sequence of its direct children; for \<open>c1\<close> at 100, \<open>c2\<close> at 50
  and \<open>c3\<close> at 200, a child of \<open>c1\<close>, the roots are \<open>c2\<close>, \<open>c1\<close> and \<open>c3\<close> is the one
  reply of \<open>c1\<close>. The object the route builds for a comment (\<open>Comment\<close>) has no
  \<open>replies\<close>, and the response is the sorted list itself: for these three comments it is
  \<open>c2\<close>, \<open>c1\<close>, \<open>c3\<close>, the reply \<open>c3\<close> standing at the top level with its \<open>parentId\<close>.
\<close>

theorem listComments_flat_list:
  "getDocumentsByCollection store_thread ''comments'' = [thread_c1, thread_c2, thread_c3]
   \<and> meta thread_c3 ''parentId'' = Some (JStr (node_id thread_c1))
   \<and> map_sum id (map com_id) (listComments store_thread (Some ''news_a'')) = Inr [''c2'', ''c1'', ''c3'']
   \<and> map_sum id (map com_parentId) (listComments store_thread (Some ''news_a''))
       = Inr [JNull, JNull, JStr ''c1'']"
proof -
  have e: "map_sum id (map com_id) (listComments store_thread (Some ''news_a'')) = Inr [''c2'', ''c1'', ''c3'']"
    by (simp add: listComments_eq store_thread_facts thread_facts comment_view_fields)
  have p: "map_sum id (map com_parentId) (listComments store_thread (Some ''news_a''))
       = Inr [JNull, JNull, JStr ''c1'']"
    by (simp add: listComments_eq store_thread_facts thread_facts comment_view_def Let_def
        or_else_def meta_def thread_c1_def thread_c2_def thread_c3_def example_node_def)
  from e p show ?thesis
    by (simp add: store_thread_facts thread_facts)
qed

section \<open>Cascade on comments created through the API\<close>

lemma present_values: "\<not> present None" "present (Some (x # xs))"
  by (simp_all add: present_def)

lemma shared_append:
  "readJsonlFile (appendFileSync s ''documents.jsonl'' d) ''documents.jsonl''
     = readJsonlFile s ''documents.jsonl'' @ [d]"
  "readCollectionFile (appendFileSync s ''documents.jsonl'' d) c = readCollectionFile s c"
  "existsSync (appendFileSync s ''documents.jsonl'' d) (collection_path c) = existsSync s (collection_path c)"
  "readJsonlFile (appendFileSync s ''documents.jsonl'' d) (collection_path c)
     = readJsonlFile s (collection_path c)"
  "isValidAidb (appendFileSync s ''documents.jsonl'' d)"
  using collection_path_not_legacy [of c]
  by (simp_all add: readJsonlFile_def readCollectionFile_def existsSync_def appendFileSync_def
      isValidAidb_def parse_lines_append split: option.splits)

lemma api_comment_facts:
  "node_id api_comment_1 = ''comment_c0ffee00''" "node_id api_comment_2 = ''comment_c0ffee01''"
  "meta api_comment_1 ''newsId'' = Some (JStr ''news_a'')"
  "meta api_comment_2 ''newsId'' = Some (JStr ''news_a'')"
  "meta api_comment_1 ''parentId'' = Some JNull"
  "meta api_comment_2 ''parentId'' = Some (JStr ''comment_c0ffee00'')"
  "meta api_comment_1 ''_collection'' = Some (JStr ''comments'')"
  "meta api_comment_2 ''_collection'' = Some (JStr ''comments'')"
  "created_at api_comment_1 = 2000" "created_at api_comment_2 = 2001"
  by (simp_all add: meta_def api_comment_1_def api_comment_2_def)

lemma store_restrict_files:
  "readJsonlFile store_restrict ''documents.jsonl'' = []"
  "readCollectionFile store_restrict ''news'' = [news_a]"
  "readCollectionFile store_restrict ''users'' = [user_ann]"
  "readCollectionFile store_restrict ''comments'' = []"
  "existsSync store_restrict (collection_path ''news'')"
  "\<not> existsSync store_restrict (collection_path ''comments'')"
  "readJsonlFile store_restrict (collection_path ''news'') = [news_a]"
  by (simp_all add: readCollectionFile_def readJsonlFile_def existsSync_def collection_path_def
      store_restrict_def example_store_def)

lemma store_comments_merged:
  "getDocumentsByCollection store_one_comment ''news'' = [news_a]"
  "getDocumentsByCollection store_one_comment ''users'' = [user_ann]"
  "getDocumentsByCollection store_one_comment ''comments'' = [api_comment_1]"
  "getDocumentsByCollection store_two_comments ''comments'' = [api_comment_1, api_comment_2]"
  by (simp_all add: getDocumentsByCollection_eq store_one_comment_def store_two_comments_def
      shared_append store_restrict_files api_comment_facts)

lemma createComment_first:
  "createComment store_restrict body_comment 2000 ''c0ffee00'' = (Inr api_comment_1, store_one_comment)"
proof -
  have p: "present (mb_content body_comment)" "present (mb_newsId body_comment)"
    "present (mb_authorId body_comment)" "\<not> present (mb_parentId body_comment)"
    "the (mb_newsId body_comment) = ''news_a''" "the (mb_authorId body_comment) = ''user_ann''"
    "the (mb_content body_comment) = ''Nice''" "mb_parentId body_comment = None"
    by (simp_all add: body_comment_def present_def)
  show ?thesis
    unfolding createComment_def Let_def
    by (simp add: store_restrict_valid store_restrict_news store_restrict_users p node_ids
        store_one_comment_def api_comment_1_def present_values)
qed

lemma createComment_second:
  "createComment store_one_comment body_reply 2001 ''c0ffee01'' = (Inr api_comment_2, store_two_comments)"
proof -
  have p: "present (mb_content body_reply)" "present (mb_newsId body_reply)"
    "present (mb_authorId body_reply)" "present (mb_parentId body_reply)"
    "the (mb_newsId body_reply) = ''news_a''" "the (mb_authorId body_reply) = ''user_ann''"
    "the (mb_content body_reply) = ''Indeed''" "mb_parentId body_reply = Some ''comment_c0ffee00''"
    by (simp_all add: body_reply_def present_def)
  have v: "isValidAidb store_one_comment"
    by (simp add: store_one_comment_def shared_append)
  show ?thesis
    unfolding createComment_def Let_def
    by (simp add: v store_comments_merged p node_ids api_comment_facts
        store_two_comments_def api_comment_2_def present_values)
qed

lemma deleteArticle_two_comments:
  "deleteArticle store_two_comments ''news_a'' =
     (Inr (), writeFileSync store_two_comments (collection_path ''news'') [])"
proof -
  let ?s1 = "writeFileSync store_two_comments (collection_path ''news'') []"
  have f: "isValidAidb store_two_comments" "existsSync store_two_comments (collection_path ''news'')"
    "readJsonlFile store_two_comments (collection_path ''news'') = [news_a]"
    "\<not> existsSync store_two_comments (collection_path ''comments'')"
    by (simp_all add: store_two_comments_def store_one_comment_def shared_append store_restrict_files)
  have x: "\<not> existsSync ?s1 (collection_path ''comments'')"
    by (simp add: existsSync_writeFileSync f collection_path_inj)
  show ?thesis
    unfolding deleteArticle_def Let_def
    by (simp add: f node_ids x)
qed

text \<open>
  Claim C2 states that \<open>deleteArticle\<close> removes the article together with its root comment
  and the reply to it, so that \<open>listComments\<close> returns the empty list afterwards. The
  route's cascade rewrites \<open>comments/documents.jsonl\<close> only, and only if that file exists,
  while \<open>createComment\<close> appends to the shared \<open>documents.jsonl\<close>: after a comment and a
  reply to it were created for \<open>news_a\<close> through \<open>createComment\<close>, \<open>deleteArticle\<close>
  succeeds and removes the article, and both comments are still in the merged comments
  collection and are still returned by \<open>listComments\<close>.
\<close>

theorem deleteArticle_misses_created_comments:
  "createComment store_restrict body_comment 2000 ''c0ffee00'' = (Inr api_comment_1, store_one_comment)
   \<and> createComment store_one_comment body_reply 2001 ''c0ffee01'' = (Inr api_comment_2, store_two_comments)
   \<and> getDocumentsByCollection store_two_comments ''news'' = [news_a]
   \<and> meta api_comment_1 ''newsId'' = Some (JStr (node_id news_a))
   \<and> meta api_comment_2 ''newsId'' = Some (JStr (node_id news_a))
   \<and> meta api_comment_2 ''parentId'' = Some (JStr (node_id api_comment_1))
   \<and> fst (deleteArticle store_two_comments (node_id news_a)) = Inr ()
   \<and> getDocumentsByCollection (snd (deleteArticle store_two_comments (node_id news_a))) ''news'' = []
   \<and> getDocumentsByCollection (snd (deleteArticle store_two_comments (node_id news_a))) ''comments''
       = [api_comment_1, api_comment_2]
   \<and> map_sum id (map com_id)
        (listComments (snd (deleteArticle store_two_comments (node_id news_a))) (Some (node_id news_a)))
       = Inr [''comment_c0ffee00'', ''comment_c0ffee01'']"
proof -
  let ?s1 = "writeFileSync store_two_comments (collection_path ''news'') []"
  have n2: "getDocumentsByCollection store_two_comments ''news'' = [news_a]"
    by (simp add: getDocumentsByCollection_eq store_one_comment_def store_two_comments_def
      shared_append store_restrict_files api_comment_facts)
  have v: "isValidAidb ?s1"
    by (intro isValidAidb_writeFileSync) (simp add: store_two_comments_def shared_append)
  have "getDocumentsByCollection ?s1 ''comments'' = getDocumentsByCollection store_two_comments ''comments''"
    by (simp add: getDocumentsByCollection_write_other)
  then have c: "getDocumentsByCollection ?s1 ''comments'' = [api_comment_1, api_comment_2]"
    by (simp add: store_comments_merged)
  have "readCollectionFile ?s1 ''news'' = []"
    using readCollectionFile_write_same [of store_two_comments "''news''" "[]"] by simp
  moreover have "readJsonlFile ?s1 ''documents.jsonl'' = [api_comment_1, api_comment_2]"
    by (simp add: legacy_write_collection store_two_comments_def store_one_comment_def
        shared_append store_restrict_files)
  ultimately have n: "getDocumentsByCollection ?s1 ''news'' = []"
    using getDocumentsByCollection_eq [of ?s1 "''news''"] by (simp add: api_comment_facts)
  have l: "map_sum id (map com_id) (listComments ?s1 (Some ''news_a''))
             = Inr [''comment_c0ffee00'', ''comment_c0ffee01'']"
    by (simp add: listComments_eq [OF v] c api_comment_facts comment_view_fields)
  show ?thesis
    unfolding node_ids deleteArticle_two_comments
    using createComment_first createComment_second n2 c n l
    by (simp add: api_comment_facts)
qed

theorem deleteArticle_misses_created_comments_witness:
  "present (mb_content body_comment) \<and> present (mb_newsId body_comment)
   \<and> present (mb_authorId body_comment)
   \<and> present (mb_content body_reply) \<and> present (mb_newsId body_reply)
   \<and> present (mb_authorId body_reply)
   \<and> fst (deleteArticle store_two_comments (node_id news_a)) = Inr ()
   \<and> map_sum id (map com_id)
        (listComments (snd (deleteArticle store_two_comments (node_id news_a))) (Some (node_id news_a)))
       = Inr [''comment_c0ffee00'', ''comment_c0ffee01'']"
  using deleteArticle_misses_created_comments
  by (simp add: present_def body_comment_def body_reply_def)

end
